theory Spec2Isabelle
  imports Complex_Main "HOL-Library.AList" "HOL-Library.Sublist"
begin

section \<open>Python values, exceptions and strings\<close>

text \<open>
  The engine is written in Python and passes dictionaries around. The values that occur in
  a case table, in a header or payload cell and in a decoded JSON body are modelled by
  \<open>pyval\<close>: \<open>None\<close>, booleans, unbounded integers, strings, lists and dictionaries with
  string keys (an association list in insertion order). A string is a \<open>char list\<close>;
  text beyond ASCII is held as its UTF-8 bytes.
\<close>

datatype pyval =
    PNone
  | PBool bool
  | PInt int
  | PStr string
  | PList "pyval list"
  | PDict "(string \<times> pyval) list"

text \<open>
  Every \<open>raise\<close> of the source is a value of \<open>exn\<close>. The three \<open>Req\<close> exceptions are the
  transport failures of the HTTP library (all subclasses of \<open>Exception\<close>).
\<close>

datatype exn =
    ReqTimeout
  | ReqConnectionRefused
  | ReqDNSFailure
  | TypeError
  | KeyError
  | IndexError
  | AttributeError
  | ValueError
  | SyntaxError
  | FileNotFoundError
  | PermissionError

text \<open>Sequencing of computations that may raise: the first exception aborts the rest.\<close>

definition andthen :: "exn + 'a \<Rightarrow> ('a \<Rightarrow> exn + 'b) \<Rightarrow> exn + 'b" where
  "andthen m f = (case m of Inl e \<Rightarrow> Inl e | Inr x \<Rightarrow> f x)"

text \<open>
  Python's \<open>==\<close> on these values: a string never equals an integer, \<open>True == 1\<close>,
  lists compare element by element, dictionaries compare as maps.
\<close>

fun py_eq :: "pyval \<Rightarrow> pyval \<Rightarrow> bool" where
  "py_eq PNone PNone = True"
| "py_eq (PBool a) (PBool b) = (a = b)"
| "py_eq (PBool a) (PInt n) = ((if a then 1 else 0) = n)"
| "py_eq (PInt n) (PBool a) = (n = (if a then 1 else 0))"
| "py_eq (PInt m) (PInt n) = (m = n)"
| "py_eq (PStr s) (PStr t) = (s = t)"
| "py_eq (PList xs) (PList ys) = list_all2 py_eq xs ys"
| "py_eq (PDict xs) (PDict ys) =
     (length xs = length ys \<and>
      list_all (\<lambda>kv. case map_of ys (fst kv) of None \<Rightarrow> False
                                              | Some w \<Rightarrow> py_eq (snd kv) w) xs)"
| "py_eq _ _ = False"

text \<open>
  A sequence read at an integer position: positions below zero count back from the end,
  a position outside the sequence raises.
\<close>

definition py_index :: "'a list \<Rightarrow> int \<Rightarrow> exn + 'a" where
  "py_index xs i =
     (if 0 \<le> i \<and> i < int (length xs) then Inr (xs ! nat i)
      else if i < 0 \<and> - i \<le> int (length xs) then Inr (xs ! nat (int (length xs) + i))
      else Inl IndexError)"

text \<open>Python's \<open>obj[key]\<close> for reading.\<close>

fun py_getitem :: "pyval \<Rightarrow> pyval \<Rightarrow> exn + pyval" where
  "py_getitem (PDict d) (PStr k) =
     (case map_of d k of None \<Rightarrow> Inl KeyError | Some v \<Rightarrow> Inr v)"
| "py_getitem (PDict d) (PList ks) = Inl TypeError"
| "py_getitem (PDict d) (PDict ks) = Inl TypeError"
| "py_getitem (PDict d) k = Inl KeyError"
| "py_getitem (PList xs) (PInt i) = py_index xs i"
| "py_getitem (PList xs) (PBool b) = py_index xs (if b then 1 else 0)"
| "py_getitem (PList xs) k = Inl TypeError"
| "py_getitem (PStr s) (PInt i) = andthen (py_index s i) (\<lambda>ch. Inr (PStr [ch]))"
| "py_getitem (PStr s) (PBool b) =
     andthen (py_index s (if b then 1 else 0)) (\<lambda>ch. Inr (PStr [ch]))"
| "py_getitem (PStr s) k = Inl TypeError"
| "py_getitem v k = Inl TypeError"

text \<open>Python's \<open>obj[key] = v\<close> with a string key, as the loader uses it on the headers.\<close>

fun py_setitem :: "pyval \<Rightarrow> string \<Rightarrow> pyval \<Rightarrow> exn + pyval" where
  "py_setitem (PDict d) k v = Inr (PDict (AList.update k v d))"
| "py_setitem other k v = Inl TypeError"

text \<open>Python's \<open>x in s\<close> for a string \<open>s\<close>: a substring test, a \<open>TypeError\<close> when \<open>x\<close> is no string.\<close>

fun py_in_str :: "pyval \<Rightarrow> string \<Rightarrow> exn + bool" where
  "py_in_str (PStr x) s = Inr (sublist x s)"
| "py_in_str other s = Inl TypeError"

text \<open>\<open>str.lower\<close> on the ASCII letters (the bytes of other code points are left alone).\<close>

definition lower_char :: "char \<Rightarrow> char" where
  "lower_char c =
     (case map_of (zip ''ABCDEFGHIJKLMNOPQRSTUVWXYZ'' ''abcdefghijklmnopqrstuvwxyz'') c of
        None \<Rightarrow> c | Some d \<Rightarrow> d)"

definition lower :: "string \<Rightarrow> string" where
  "lower s = map lower_char s"

text \<open>
  \<open>str.strip\<close>: the white space of Python, that is every character for which
  \<open>str.isspace\<close> holds, is removed at both ends. A string being held as its UTF-8 bytes,
  each of these characters is a sequence of one to three bytes: the ASCII ones (U+0009 to
  U+000D, U+001C to U+0020), then U+0085, U+00A0, U+1680, U+2000 to U+200A, U+2028,
  U+2029, U+202F, U+205F and U+3000.
\<close>

definition whitespace :: "string list" where
  "whitespace =
     map (\<lambda>c. [c]) [CHR 0x09, CHR 0x0A, CHR 0x0B, CHR 0x0C, CHR 0x0D,
                    CHR 0x1C, CHR 0x1D, CHR 0x1E, CHR 0x1F, CHR 0x20]
     @ [[CHR 0xC2, CHR 0x85], [CHR 0xC2, CHR 0xA0], [CHR 0xE1, CHR 0x9A, CHR 0x80]]
     @ map (\<lambda>c. [CHR 0xE2, CHR 0x80, c])
         [CHR 0x80, CHR 0x81, CHR 0x82, CHR 0x83, CHR 0x84, CHR 0x85, CHR 0x86, CHR 0x87,
          CHR 0x88, CHR 0x89, CHR 0x8A, CHR 0xA8, CHR 0xA9, CHR 0xAF]
     @ [[CHR 0xE2, CHR 0x81, CHR 0x9F], [CHR 0xE3, CHR 0x80, CHR 0x80]]"

text \<open>
  Removing at the front, as long as the string starts with one of the sequences \<open>ws\<close>.
  A sequence of \<open>ws\<close> that is empty is passed over, so every step shortens the string.
\<close>

function lstrip :: "string list \<Rightarrow> string \<Rightarrow> string" where
  "lstrip ws s =
     (case find (\<lambda>p. p \<noteq> [] \<and> prefix p s) ws of
        None \<Rightarrow> s
      | Some p \<Rightarrow> lstrip ws (drop (length p) s))"
  by pat_completeness auto
termination
  by (relation "measure (\<lambda>(ws, s). length s)") (auto simp: find_Some_iff prefix_def)

declare lstrip.simps [simp del]

text \<open>At the end the same is done on the reversed string, with the sequences reversed.\<close>

definition strip :: "string \<Rightarrow> string" where
  "strip s = rev (lstrip (map rev whitespace) (rev (lstrip whitespace s)))"

section \<open>Data model\<close>

text \<open>The response object of the HTTP library, as far as \<open>Response.result\<close> reads it.\<close>

record http_response =
  status_code :: int
  json :: "exn + pyval"
  elapsed_total_seconds :: real

text \<open>The dictionary built by \<open>Response.result\<close>.\<close>

record summary =
  code :: int
  body :: string
  time_total :: real

text \<open>One call of \<open>session.request\<close>: the keyword that carries the payload is \<open>kw\<close>.\<close>

record http_call =
  call_method :: string
  call_url :: string
  call_kw :: string
  call_payload :: pyval
  call_headers :: pyval

record request =
  url :: string
  http_method :: string
  headers :: pyval
  data :: pyval

record expected =
  exp_status_code :: pyval
  exp_msg :: pyval
  exp_data :: pyval

text \<open>
  The case dictionary of \<open>ExcelPack.load_test_cases\<close>. The expected values are \<open>pyval\<close>s:
  the spreadsheet loader yields strings, a YAML case may hold an integer status code.
\<close>

record tcase =
  name :: string
  run :: string
  token :: string
  data_type :: string
  request :: request
  expected :: expected
  prev_result :: string
  prev_response :: string
  row :: nat

text \<open>The \<open>response\<close> entry of a result: \<open>None\<close>, a text, or the summary dictionary.\<close>

datatype respval = RNone | RText string | RSummary summary

record result_rec =
  res_name :: string
  res_result :: string
  res_response :: respval

text \<open>The process-wide configuration read by \<open>common.consts\<close>.\<close>

record config =
  API_HOST :: string
  TOKEN :: string

text \<open>A spreadsheet cell of the workbook file and its font.\<close>

record font =
  bold :: bool
  color :: "string option"

record xcell =
  cell_value :: pyval
  cell_font :: font

type_synonym worksheet = "nat \<times> nat \<Rightarrow> xcell"

text \<open>
  The DataFrame: rows of cells, \<open>None\<close> for a missing value (\<open>pd.notna\<close> is false),
  \<open>Some s\<close> for a value whose \<open>str()\<close> is \<open>s\<close>.
\<close>

type_synonym dataframe = "string option list list"

text \<open>
  What the engine calls but does not define: the network, \<open>pd.read_excel\<close>, Python's
  \<open>eval\<close> and \<open>str\<close>. They are parameters of the model.
\<close>

record env =
  transport :: "http_call \<Rightarrow> exn + http_response"
  read_excel :: "worksheet \<Rightarrow> exn + dataframe"
  eval_py :: "string \<Rightarrow> exn + pyval"
  str_json :: "pyval \<Rightarrow> string"
  str_summary :: "summary \<Rightarrow> string"
  str_exn :: "exn \<Rightarrow> string"

text \<open>
  The mutable state: the DataFrame cached in \<open>ExcelPack._df\<close>, the workbook file (its
  active sheet; \<open>None\<close> when the file cannot be opened), whether saving fails, and the log
  of the HTTP calls made so far.
\<close>

record world =
  df_cache :: "dataframe option"
  xfile :: "worksheet option"
  locked :: bool
  sent :: "http_call list"

text \<open>
  \<open>pd.read_excel(file)\<close> as \<open>ExcelPack.df\<close> calls it, with no argument but the file, so
  with \<open>header=0\<close>: of the rows \<open>1..nrows\<close> of the sheet that hold the table (columns
  \<open>1..ncols\<close>), the first gives the column labels and is no row of the DataFrame; every
  later sheet row is one row of the DataFrame, in the order of the sheet. How the value
  of a cell becomes the value of the DataFrame (and so the text \<open>str\<close> gives for it)
  depends on the type pandas infers; that conversion is the parameter \<open>conv\<close>.
\<close>

definition sheet_rows :: "nat \<Rightarrow> nat \<Rightarrow> worksheet \<Rightarrow> pyval list list" where
  "sheet_rows nrows ncols ws =
     map (\<lambda>r. map (\<lambda>c. cell_value (ws (r, c))) [1..<Suc ncols]) [1..<Suc nrows]"

definition pd_read_excel ::
  "(pyval \<Rightarrow> string option) \<Rightarrow> nat \<Rightarrow> nat \<Rightarrow> worksheet \<Rightarrow> exn + dataframe" where
  "pd_read_excel conv nrows ncols ws =
     Inr (map (map conv) (tl (sheet_rows nrows ncols ws)))"

section \<open>RequestDispatcher: \<open>Requests.send_request\<close>\<close>

definition session_request :: "env \<Rightarrow> http_call \<Rightarrow> world \<Rightarrow> (exn + http_response) \<times> world" where
  "session_request env c w = (transport env c, w\<lparr>sent := sent w @ [c]\<rparr>)"

text \<open>The \<open>try\<close> block: the payload mode selects the keyword; an unknown mode sends nothing.\<close>

definition send_request_try ::
  "env \<Rightarrow> string \<Rightarrow> string \<Rightarrow> string \<Rightarrow> pyval \<Rightarrow> pyval \<Rightarrow> world
     \<Rightarrow> (exn + http_response option) \<times> world" where
  "send_request_try env u m dt hs d w =
     (let call = (\<lambda>kw. case session_request env
                          \<lparr>call_method = m, call_url = u, call_kw = kw,
                           call_payload = d, call_headers = hs\<rparr> w of
                        (Inl e, w') \<Rightarrow> (Inl e, w')
                      | (Inr r, w') \<Rightarrow> (Inr (Some r), w'))
      in if dt = ''params'' then call ''params''
         else if dt = ''data'' then call ''data''
         else if dt = ''json'' then call ''json''
         else if dt = ''file'' then call ''files''
         else (Inr None, w))"

text \<open>\<open>except Exception\<close>: the exception is logged, \<open>res\<close> keeps its initial \<open>None\<close>.\<close>

definition send_request ::
  "env \<Rightarrow> string \<Rightarrow> string \<Rightarrow> string \<Rightarrow> pyval \<Rightarrow> pyval \<Rightarrow> world
     \<Rightarrow> (exn + http_response option) \<times> world" where
  "send_request env u m dt hs d w =
     (case send_request_try env u m dt hs d w of
        (Inl e, w') \<Rightarrow> (Inr None, w')
      | (Inr res, w') \<Rightarrow> (Inr res, w'))"

section \<open>\<open>Response.result\<close>\<close>

definition result_try :: "env \<Rightarrow> http_response option \<Rightarrow> exn + summary" where
  "result_try env res =
     (case res of
        None \<Rightarrow> Inl AttributeError
      | Some r \<Rightarrow>
          andthen (json r) (\<lambda>j.
            Inr \<lparr>code = status_code r, body = str_json env j,
                 time_total = elapsed_total_seconds r\<rparr>))"

text \<open>On an exception the function logs and falls off its end: it returns \<open>None\<close>.\<close>

definition result :: "env \<Rightarrow> http_response option \<Rightarrow> summary option" where
  "result env res = (case result_try env res of Inl e \<Rightarrow> None | Inr s \<Rightarrow> Some s)"

section \<open>Validator and CaseRunner: \<open>Manage\<close>\<close>

definition create_result :: "string \<Rightarrow> string \<Rightarrow> respval \<Rightarrow> result_rec" where
  "create_result n status response =
     \<lparr>res_name = n, res_result = status, res_response = response\<rparr>"

text \<open>\<open>response['code']\<close> and \<open>response['body']\<close>, where \<open>response\<close> may be \<open>None\<close>.\<close>

definition response_code :: "summary option \<Rightarrow> exn + pyval" where
  "response_code response =
     (case response of None \<Rightarrow> Inl TypeError | Some s \<Rightarrow> Inr (PInt (code s)))"

definition response_body :: "summary option \<Rightarrow> exn + pyval" where
  "response_body response =
     (case response of None \<Rightarrow> Inl TypeError | Some s \<Rightarrow> Inr (PStr (body s)))"

text \<open>\<open>str(v)\<close>: a string is its own text.\<close>

definition py_str :: "env \<Rightarrow> pyval \<Rightarrow> string" where
  "py_str env v = (case v of PStr s \<Rightarrow> s | _ \<Rightarrow> str_json env v)"

text \<open>The three checks, one definition for each element of \<open>validation_results\<close>.\<close>

definition check_status :: "tcase \<Rightarrow> summary option \<Rightarrow> exn + bool" where
  "check_status c response =
     andthen (response_code response) (\<lambda>rc. Inr (py_eq (exp_status_code (expected c)) rc))"

definition check_msg :: "tcase \<Rightarrow> summary option \<Rightarrow> exn + bool" where
  "check_msg c response =
     andthen (response_body response) (\<lambda>b.
     andthen (py_getitem b (PStr ''msg'')) (\<lambda>m. Inr (py_eq (exp_msg (expected c)) m)))"

definition check_data :: "env \<Rightarrow> tcase \<Rightarrow> summary option \<Rightarrow> exn + bool" where
  "check_data env c response =
     andthen (response_body response) (\<lambda>b. py_in_str (exp_data (expected c)) (py_str env b))"

definition validation_results :: "env \<Rightarrow> tcase \<Rightarrow> summary option \<Rightarrow> exn + bool list" where
  "validation_results env c response =
     andthen (check_status c response) (\<lambda>r1.
     andthen (check_msg c response) (\<lambda>r2.
     andthen (check_data env c response) (\<lambda>r3. Inr [r1, r2, r3])))"

text \<open>The \<open>try\<close> block of \<open>execute_test_case\<close>.\<close>

definition execute_try :: "env \<Rightarrow> tcase \<Rightarrow> world \<Rightarrow> (exn + result_rec) \<times> world" where
  "execute_try env c w =
     (case send_request env (url (request c)) (http_method (request c)) (data_type c)
             (headers (request c)) (data (request c)) w of
        (Inl e, w') \<Rightarrow> (Inl e, w')
      | (Inr res, w') \<Rightarrow>
          (let response = result env res in
           (andthen (validation_results env c response) (\<lambda>rs.
              Inr (create_result (name c) (if list_all (\<lambda>b. b) rs then ''pass'' else ''fail'')
                     (case response of None \<Rightarrow> RNone | Some s \<Rightarrow> RSummary s))), w')))"

text \<open>The text put in front of the exception message, in UTF-8.\<close>

definition error_prefix :: string where
  "error_prefix =
     [CHR 0xE6, CHR 0x89, CHR 0xA7, CHR 0xE8, CHR 0xA1, CHR 0x8C, CHR 0xE7, CHR 0x94, CHR 0xA8,
      CHR 0xE4, CHR 0xBE, CHR 0x8B, CHR 0xE5, CHR 0xBC, CHR 0x82, CHR 0xE5, CHR 0xB8, CHR 0xB8]
     @ '': ''"

definition execute_test_case :: "env \<Rightarrow> tcase \<Rightarrow> world \<Rightarrow> (exn + result_rec) \<times> world" where
  "execute_test_case env c w =
     (case execute_try env c w of
        (Inl e, w') \<Rightarrow>
          (Inr (create_result (name c) ''fail'' (RText (error_prefix @ str_exn env e))), w')
      | (Inr r, w') \<Rightarrow> (Inr r, w'))"

section \<open>CaseSource and ResultWriter: \<open>ExcelPack\<close>\<close>

definition COLUMNS :: "(string \<times> nat) list" where
  "COLUMNS =
     [(''name'', 0), (''run'', 1), (''token'', 2), (''url'', 3), (''data'', 4),
      (''method'', 5), (''type'', 6), (''header'', 7), (''status_code'', 8),
      (''expect_msg'', 9), (''expect_data'', 10), (''result'', 11), (''response'', 12)]"

definition STYLES :: "(string \<times> nat \<times> string) list" where
  "STYLES = [(''pass'', 3, ''00FF00''), (''fail'', 4, ''FF0000''), (''skip'', 6, ''800080'')]"

text \<open>
  The property \<open>df\<close>: the table is read from the file on first use and cached. Once it is
  cached every later \<open>self.df\<close> returns it, so the functions below read it once and pass
  it on.
\<close>

definition df_prop :: "env \<Rightarrow> world \<Rightarrow> (exn + dataframe) \<times> world" where
  "df_prop env w =
     (case df_cache w of
        Some d \<Rightarrow> (Inr d, w)
      | None \<Rightarrow>
          (case xfile w of
             None \<Rightarrow> (Inl FileNotFoundError, w)
           | Some ws \<Rightarrow>
               (case read_excel env ws of
                  Inl e \<Rightarrow> (Inl e, w)
                | Inr d \<Rightarrow> (Inr d, w\<lparr>df_cache := Some d\<rparr>))))"

text \<open>
  \<open>_get_cell_value\<close>: \<open>df.iloc[row, col]\<close> raises outside the table; a missing value
  gives the empty string, any other value its stripped text.
\<close>

definition cell_text :: "string option \<Rightarrow> string" where
  "cell_text v = (case v of None \<Rightarrow> [] | Some s \<Rightarrow> strip s)"

definition get_cell_value :: "dataframe \<Rightarrow> nat \<Rightarrow> string \<Rightarrow> exn + string" where
  "get_cell_value df r col_name =
     (case map_of COLUMNS col_name of
        None \<Rightarrow> Inl KeyError
      | Some col \<Rightarrow>
          if r < length df \<and> col < length (df ! r)
          then Inr (cell_text (df ! r ! col))
          else Inl IndexError)"

text \<open>The body of the loop of \<open>load_test_cases\<close>, in the order the source evaluates it.\<close>

definition load_row :: "env \<Rightarrow> config \<Rightarrow> dataframe \<Rightarrow> nat \<Rightarrow> exn + tcase" where
  "load_row env cfg df r =
     andthen (get_cell_value df r ''header'') (\<lambda>hc.
     andthen (if hc \<noteq> [] then andthen (get_cell_value df r ''header'') (eval_py env)
              else Inr (PDict [])) (\<lambda>hs0.
     andthen (get_cell_value df r ''token'') (\<lambda>tk.
     andthen (if tk = ''yes'' then py_setitem hs0 ''Authorization'' (PStr (TOKEN cfg))
              else Inr hs0) (\<lambda>hs.
     andthen (get_cell_value df r ''name'') (\<lambda>c_name.
     andthen (get_cell_value df r ''run'') (\<lambda>c_run.
     andthen (get_cell_value df r ''token'') (\<lambda>c_token.
     andthen (get_cell_value df r ''type'') (\<lambda>c_type.
     andthen (get_cell_value df r ''url'') (\<lambda>c_url.
     andthen (get_cell_value df r ''method'') (\<lambda>c_method.
     andthen (get_cell_value df r ''data'') (\<lambda>dc.
     andthen (if dc \<noteq> [] then andthen (get_cell_value df r ''data'') (eval_py env)
              else Inr PNone) (\<lambda>c_data.
     andthen (get_cell_value df r ''status_code'') (\<lambda>c_status.
     andthen (get_cell_value df r ''expect_msg'') (\<lambda>c_msg.
     andthen (get_cell_value df r ''expect_data'') (\<lambda>c_exp_data.
     andthen (get_cell_value df r ''result'') (\<lambda>c_result.
     andthen (get_cell_value df r ''response'') (\<lambda>c_response.
       Inr \<lparr>name = c_name, run = c_run, token = c_token, data_type = c_type,
            request = \<lparr>url = API_HOST cfg @ c_url, http_method = c_method,
                       headers = hs, data = c_data\<rparr>,
            expected = \<lparr>exp_status_code = PStr c_status, exp_msg = PStr c_msg,
                        exp_data = PStr c_exp_data\<rparr>,
            prev_result = c_result, prev_response = c_response,
            row = r\<rparr>)))))))))))))))))"

text \<open>
  The rows that the loop of \<open>load_test_cases\<close> loads without raising: all thirteen columns
  are there, a non-empty header cell evaluates (to a dictionary when the token flag is
  \<open>yes\<close>, since the token is then stored in it) and a non-empty data cell evaluates.
\<close>

definition well_formed_row :: "env \<Rightarrow> string option list \<Rightarrow> bool" where
  "well_formed_row env r =
     (12 < length r
      \<and> (cell_text (r ! 7) = []
           \<or> (case eval_py env (cell_text (r ! 7)) of
                 Inl e \<Rightarrow> False
               | Inr v \<Rightarrow> cell_text (r ! 2) \<noteq> ''yes''
                           \<or> (case v of PDict d \<Rightarrow> True | _ \<Rightarrow> False)))
      \<and> (cell_text (r ! 4) = []
           \<or> (case eval_py env (cell_text (r ! 4)) of Inl e \<Rightarrow> False | Inr v \<Rightarrow> True)))"

text \<open>The loop: the first row that raises aborts the load and no list is returned.\<close>

fun collect :: "(nat \<Rightarrow> exn + 'a) \<Rightarrow> nat list \<Rightarrow> exn + 'a list" where
  "collect f [] = Inr []"
| "collect f (r # rs) =
     (case f r of
        Inl e \<Rightarrow> Inl e
      | Inr c \<Rightarrow> (case collect f rs of Inl e \<Rightarrow> Inl e | Inr cs \<Rightarrow> Inr (c # cs)))"

definition load_test_cases :: "env \<Rightarrow> config \<Rightarrow> world \<Rightarrow> (exn + tcase list) \<times> world" where
  "load_test_cases env cfg w =
     (case df_prop env w of
        (Inl e, w') \<Rightarrow> (Inl e, w')
      | (Inr d, w') \<Rightarrow> (collect (load_row env cfg d) [1..<length d], w'))"

text \<open>The style step of \<open>_write_cell\<close>: an empty or unknown style leaves the font alone.\<close>

definition apply_style :: "string option \<Rightarrow> xcell \<Rightarrow> xcell" where
  "apply_style style cell =
     (case style of
        None \<Rightarrow> cell
      | Some s \<Rightarrow>
          if s = [] then cell
          else (case map_of STYLES s of
                  None \<Rightarrow> cell
                | Some (n, col) \<Rightarrow> cell\<lparr>cell_font := \<lparr>bold = True, color = Some col\<rparr>\<rparr>))"

text \<open>
  \<open>_write_cell\<close>: the cached table is updated first, then the workbook is opened, the cell
  at \<open>(row + 2, col + 1)\<close> is set and the workbook is saved. The result is the exception
  raised, if any, and the state reached.
\<close>

definition write_cell ::
  "env \<Rightarrow> nat \<Rightarrow> string \<Rightarrow> string \<Rightarrow> string option \<Rightarrow> world \<Rightarrow> exn option \<times> world" where
  "write_cell env r col_name v style w =
     (case map_of COLUMNS col_name of
        None \<Rightarrow> (Some KeyError, w)
      | Some col \<Rightarrow>
          (case df_prop env w of
             (Inl e, w1) \<Rightarrow> (Some e, w1)
           | (Inr d, w1) \<Rightarrow>
               if \<not> (r < length d \<and> col < length (d ! r)) then (Some IndexError, w1)
               else
                 (let w2 = w1\<lparr>df_cache := Some (d[r := (d ! r)[col := Some v]])\<rparr> in
                  case xfile w2 of
                    None \<Rightarrow> (Some FileNotFoundError, w2)
                  | Some ws \<Rightarrow>
                      (let cell = apply_style style ((ws (r + 2, col + 1))\<lparr>cell_value := PStr v\<rparr>)
                       in if locked w2 then (Some PermissionError, w2)
                          else (None, w2\<lparr>xfile := Some (ws((r + 2, col + 1) := cell))\<rparr>)))))"

text \<open>\<open>str(result.get('response', ''))\<close>: the key is always present, so \<open>None\<close> becomes \<open>'None'\<close>.\<close>

definition str_response :: "env \<Rightarrow> respval \<Rightarrow> string" where
  "str_response env v =
     (case v of RNone \<Rightarrow> ''None'' | RText s \<Rightarrow> s | RSummary s \<Rightarrow> str_summary env s)"

text \<open>\<open>write_to_excel\<close>: an exception of either write is logged and not raised again.\<close>

definition write_to_excel :: "env \<Rightarrow> nat \<Rightarrow> result_rec \<Rightarrow> world \<Rightarrow> world" where
  "write_to_excel env r res w =
     (case write_cell env r ''response'' (str_response env (res_response res)) None w of
        (Some e, w1) \<Rightarrow> w1
      | (None, w1) \<Rightarrow>
          snd (write_cell env r ''result'' (res_result res) (Some (res_result res)) w1))"

section \<open>The harness: \<open>TestExcel.test_excel_api\<close>\<close>

datatype outcome = Passed | Failed | Skipped | Errored exn

definition test_excel_api :: "env \<Rightarrow> tcase \<Rightarrow> world \<Rightarrow> outcome \<times> world" where
  "test_excel_api env c w =
     (if lower (run c) \<noteq> ''yes''
      then (Skipped, write_to_excel env (row c) (create_result (name c) ''skip'' RNone) w)
      else
        (case execute_test_case env c w of
           (Inl e, w1) \<Rightarrow> (Errored e, w1)
         | (Inr res, w1) \<Rightarrow>
             (let w2 = write_to_excel env (row c) res w1
              in (if res_result res = ''pass'' then Passed else Failed, w2))))"

section \<open>\<open>YamlPack.load_test_cases\<close>\<close>

text \<open>Iterating a value: a list gives its elements, a dictionary its keys, a string its characters.\<close>

fun py_iter :: "pyval \<Rightarrow> exn + pyval list" where
  "py_iter (PList xs) = Inr xs"
| "py_iter (PDict d) = Inr (map (\<lambda>kv. PStr (fst kv)) d)"
| "py_iter (PStr s) = Inr (map (\<lambda>ch. PStr [ch]) s)"
| "py_iter other = Inl TypeError"

fun py_items :: "pyval \<Rightarrow> exn + (string \<times> pyval) list" where
  "py_items (PDict d) = Inr d"
| "py_items other = Inl AttributeError"

fun yaml_tests :: "pyval list \<Rightarrow> exn + pyval list" where
  "yaml_tests [] = Inr []"
| "yaml_tests (a # as) =
     andthen (py_items a) (\<lambda>kvs.
     andthen (yaml_tests as) (\<lambda>rest.
       Inr (map snd (filter (\<lambda>kv. fst kv = ''Test'') kvs) @ rest)))"

definition yaml_load_test_cases :: "pyval \<Rightarrow> exn + pyval list" where
  "yaml_load_test_cases ydata =
     andthen (py_getitem ydata (PStr ''Case'')) (\<lambda>cs.
     andthen (py_iter cs) yaml_tests)"

section \<open>Example objects\<close>

text \<open>
  A stub server that answers every call with status 200 and the JSON body
  \<open>{"msg": "ok", "id": 1}\<close>, a network that times out, and a small table. They are
  used to evaluate the model at concrete inputs. The texts that \<open>str\<close> gives are
  stand-ins: the body is written without its quotation marks, an exception by a short
  message.
\<close>

definition stub_response :: http_response where
  "stub_response =
     \<lparr>status_code = 200,
      json = Inr (PDict [(''msg'', PStr ''ok''), (''id'', PInt 1)]),
      elapsed_total_seconds = 0\<rparr>"

fun exn_text :: "exn \<Rightarrow> string" where
  "exn_text ReqTimeout = ''Read timed out.''"
| "exn_text ReqConnectionRefused = ''Connection refused''"
| "exn_text ReqDNSFailure = ''Name or service not known''"
| "exn_text TypeError = ''TypeError''"
| "exn_text e = ''error''"

definition stub_env :: env where
  "stub_env =
     \<lparr>transport = (\<lambda>c. Inr stub_response),
      read_excel = (\<lambda>ws. Inl ValueError),
      eval_py = (\<lambda>s. if s = ''{}'' then Inr (PDict []) else Inl SyntaxError),
      str_json = (\<lambda>v. ''{msg: ok, id: 1}''),
      str_summary = (\<lambda>s. ''summary''),
      str_exn = exn_text\<rparr>"

definition timeout_env :: env where
  "timeout_env = stub_env\<lparr>transport := (\<lambda>c. Inl ReqTimeout)\<rparr>"

definition stub_case :: tcase where
  "stub_case =
     \<lparr>name = ''get_user'', run = ''yes'', token = [], data_type = ''params'',
      request = \<lparr>url = ''http://host/api/user/1'', http_method = ''GET'',
                 headers = PDict [], data = PNone\<rparr>,
      expected = \<lparr>exp_status_code = PInt 200, exp_msg = PStr ''ok'', exp_data = PStr ''id''\<rparr>,
      prev_result = [], prev_response = [], row = 1\<rparr>"

definition stub_cfg :: config where
  "stub_cfg = \<lparr>API_HOST = ''http://host'', TOKEN = ''Bearer t''\<rparr>"

definition stub_df :: dataframe where
  "stub_df =
     [[Some ''name'', Some ''run'', Some ''token'', Some ''url'', Some ''data'', Some ''method'',
       Some ''type'', Some ''header'', Some ''status_code'', Some ''expect_msg'',
       Some ''expect_data'', Some ''result'', Some ''response''],
      [Some ''get_user'', Some ''yes'', Some ''yes'', Some ''/api/user/1'', None, Some ''GET'',
       Some ''params'', Some ''{}'', Some ''200'', Some ''ok'', None, None, None],
      [Some ''del_user'', Some ''no'', None, Some ''/api/user/2'', None, Some ''DELETE'',
       Some ''params'', None, Some ''200'', Some ''ok'', Some '' id '', None, None]]"

definition blank_cell :: xcell where
  "blank_cell = \<lparr>cell_value = PNone, cell_font = \<lparr>bold = False, color = None\<rparr>\<rparr>"

definition stub_world :: world where
  "stub_world =
     \<lparr>df_cache = Some stub_df, xfile = Some (\<lambda>p. blank_cell), locked = False, sent = []\<rparr>"

text \<open>
  A workbook file, not read yet. Its sheet shows the rows of \<open>stub_df\<close> as text cells: the
  column names in sheet row 1 and two data rows, \<open>get_user\<close> in sheet row 2 and
  \<open>del_user\<close> in sheet row 3. A text cell is read as its text, an empty cell as a missing
  value.
\<close>

definition sheet_of :: "string option list list \<Rightarrow> worksheet" where
  "sheet_of rows =
     (\<lambda>(r, c). if 1 \<le> r \<and> r \<le> length rows \<and> 1 \<le> c \<and> c \<le> length (rows ! (r - 1))
               then blank_cell\<lparr>cell_value :=
                      (case rows ! (r - 1) ! (c - 1) of None \<Rightarrow> PNone | Some s \<Rightarrow> PStr s)\<rparr>
               else blank_cell)"

definition text_cell :: "pyval \<Rightarrow> string option" where
  "text_cell v = (case v of PStr s \<Rightarrow> Some s | _ \<Rightarrow> None)"

definition stub_sheet :: worksheet where
  "stub_sheet = sheet_of stub_df"

definition sheet_env :: env where
  "sheet_env = stub_env\<lparr>read_excel := pd_read_excel text_cell 3 13\<rparr>"

definition sheet_world :: world where
  "sheet_world = \<lparr>df_cache = None, xfile = Some stub_sheet, locked = False, sent = []\<rparr>"

section \<open>Basic facts\<close>

lemma andthen_Inr_iff: "andthen m f = Inr y \<longleftrightarrow> (\<exists>x. m = Inr x \<and> f x = Inr y)"
  by (cases m) (simp_all add: andthen_def)

text \<open>
  \<open>Response.result\<close> stores \<open>str(res.json())\<close>, a string, under \<open>'body'\<close>. Indexing a
  string with \<open>'msg'\<close> raises, and so does indexing \<open>None\<close>: the second check never
  yields a truth value.
\<close>

lemma check_msg_raises: "check_msg c response = Inl TypeError"
  by (cases response) (simp_all add: check_msg_def response_body_def andthen_def)

lemma validation_results_raises: "validation_results env c response = Inl TypeError"
proof (cases response)
  case None
  then show ?thesis
    by (simp add: validation_results_def check_status_def response_code_def andthen_def)
next
  case (Some s)
  then show ?thesis
    by (simp add: validation_results_def check_status_def response_code_def andthen_def
        check_msg_raises)
qed

lemma send_request_returns: "\<exists>res. fst (send_request env u m dt hs d w) = Inr res"
  by (cases "send_request_try env u m dt hs d w") (auto simp: send_request_def split: sum.splits)

lemma execute_try_raises: "fst (execute_try env c w) = Inl TypeError"
proof -
  obtain res w' where s:
    "send_request env (url (request c)) (http_method (request c)) (data_type c)
       (headers (request c)) (data (request c)) w = (Inr res, w')"
    using send_request_returns[of env "url (request c)" "http_method (request c)" "data_type c"
        "headers (request c)" "data (request c)" w]
    by (metis fst_conv surj_pair)
  show ?thesis
    by (simp add: execute_try_def s validation_results_raises andthen_def)
qed

lemma execute_test_case_always_fail:
  "fst (execute_test_case env c w) =
     Inr (create_result (name c) ''fail'' (RText (error_prefix @ str_exn env TypeError)))"
proof -
  obtain w' where "execute_try env c w = (Inl TypeError, w')"
    using execute_try_raises[of env c w] by (metis fst_conv surj_pair)
  then show ?thesis by (simp add: execute_test_case_def)
qed

lemma execute_test_case_returns: "\<exists>r. fst (execute_test_case env c w) = Inr r"
  by (cases "execute_try env c w") (auto simp: execute_test_case_def split: sum.splits)

section \<open>Validator\<close>

text \<open>
  Claim C1 says that the verdict is \<open>pass\<close> exactly when the three checks hold: the status
  codes are equal, the expected message equals the \<open>msg\<close> entry of the parsed body, and the
  expected fragment occurs in the text of the body. The stub server answers the case
  \<open>get_user\<close> with status 200 and a body whose \<open>msg\<close> is \<open>ok\<close> and whose text contains
  \<open>id\<close>, so all three hold on the parsed body; the verdict of \<open>execute_test_case\<close> is
  \<open>fail\<close> all the same, with the text of a \<open>TypeError\<close> as response, because the body it
  indexes is already a string.
\<close>

theorem execute_test_case_matching_case_fails:
  "py_eq (exp_status_code (expected stub_case)) (PInt (status_code stub_response))
   \<and> andthen (json stub_response) (\<lambda>j. py_getitem j (PStr ''msg'')) = Inr (PStr ''ok'')
   \<and> py_eq (exp_msg (expected stub_case)) (PStr ''ok'')
   \<and> andthen (json stub_response)
        (\<lambda>j. py_in_str (exp_data (expected stub_case)) (str_json stub_env j)) = Inr True
   \<and> fst (execute_test_case stub_env stub_case stub_world)
       = Inr \<lparr>res_name = ''get_user'', res_result = ''fail'',
              res_response = RText (error_prefix @ ''TypeError'')\<rparr>"
proof -
  have "sublist ''id'' ''{msg: ok, id: 1}''" by code_simp
  then show ?thesis
    by (simp add: execute_test_case_always_fail create_result_def stub_case_def
        stub_response_def stub_env_def andthen_def)
qed

text \<open>
  Claim C4 says that an expected status code written as the decimal string of \<open>n\<close> matches
  a response whose status code is the integer \<open>n\<close>. The check compares with \<open>==\<close> and no
  conversion: whatever the string and whatever the integer, its value is \<open>False\<close>.
\<close>

theorem check_status_string_expected:
  "check_status (c\<lparr>expected := \<lparr>exp_status_code = PStr s, exp_msg = m, exp_data = d\<rparr>\<rparr>)
     (Some \<lparr>code = n, body = b, time_total = t\<rparr>) = Inr False"
  by (simp add: check_status_def response_code_def andthen_def)

text \<open>
  Claim C7, as amended: when the expected data fragment is the empty string, the fragment
  check succeeds against every response body, empty or not (the empty string occurs in
  every string).
\<close>

theorem check_data_empty_fragment:
  "check_data env (c\<lparr>expected := (expected c)\<lparr>exp_data := PStr []\<rparr>\<rparr>) (Some s) = Inr True"
  by (simp add: check_data_def response_body_def andthen_def py_str_def)

text \<open>
  Claim C7 as stated fails: an empty cell is loaded as the empty string, and the fragment
  check of that string against a non-empty body is true.
\<close>

theorem check_data_empty_fragment_counterexample:
  "cell_text None = [] \<and> ''{msg: ok, id: 1}'' \<noteq> [] \<and>
   check_data stub_env
     (stub_case\<lparr>expected := (expected stub_case)\<lparr>exp_data := PStr (cell_text None)\<rparr>\<rparr>)
     (Some \<lparr>code = 200, body = ''{msg: ok, id: 1}'', time_total = 0\<rparr>) = Inr True"
  by (simp add: check_data_def response_body_def andthen_def py_str_def cell_text_def)

section \<open>RequestDispatcher\<close>

text \<open>
  Claim C2, as amended: when the network call of a request raises (a timeout, a refused
  connection, a failed name lookup or any other exception), \<open>send_request\<close> does not raise
  and returns \<open>None\<close>, and \<open>Response.result\<close> turns that \<open>None\<close> into \<open>None\<close>: no
  response summary is built.
\<close>

theorem send_request_transport_failure:
  assumes "\<And>kw. transport env \<lparr>call_method = m, call_url = u, call_kw = kw,
                     call_payload = d, call_headers = hs\<rparr> = Inl e"
  shows "fst (send_request env u m dt hs d w) = Inr None \<and> result env None = None"
  by (simp add: send_request_def send_request_try_def session_request_def assms
      result_def result_try_def)

theorem send_request_transport_failure_witness:
  "fst (send_request timeout_env ''http://host/api/user/1'' ''GET'' ''params'' (PDict []) PNone
          stub_world) = Inr None
   \<and> result timeout_env None = None"
proof -
  have "\<And>kw. transport timeout_env
           \<lparr>call_method = ''GET'', call_url = ''http://host/api/user/1'',
            call_kw = kw, call_payload = PNone, call_headers = PDict []\<rparr> = Inl ReqTimeout"
    by (simp add: timeout_env_def)
  from send_request_transport_failure[OF this] show ?thesis .
qed

text \<open>
  Claim C2 as stated fails: on a timeout neither \<open>send_request\<close> nor \<open>Response.result\<close>
  returns an object with status code 0.
\<close>

theorem send_request_timeout_counterexample:
  "transport timeout_env \<lparr>call_method = ''GET'', call_url = ''http://host/api/user/1'',
      call_kw = ''params'', call_payload = PNone, call_headers = PDict []\<rparr> = Inl ReqTimeout
   \<and> \<not> (\<exists>r. fst (send_request timeout_env ''http://host/api/user/1'' ''GET'' ''params''
                    (PDict []) PNone stub_world) = Inr (Some r) \<and> status_code r = 0)
   \<and> \<not> (\<exists>s. result timeout_env None = Some s \<and> code s = 0)"
  by (simp add: timeout_env_def send_request_def send_request_try_def session_request_def
      result_def result_try_def)

section \<open>CaseRunner\<close>

text \<open>
  Claim C6, as amended: \<open>execute_test_case\<close> never raises; an exception that reaches its
  \<open>try\<close> block is turned into a \<open>fail\<close> result whose response is the fixed prefix followed
  by the message of that exception; and the test function never ends in an error of the
  runner. (An exception raised inside the HTTP call is handled earlier, by
  \<open>send_request\<close>, and its message is only logged.)
\<close>

theorem execute_test_case_catches:
  "(\<exists>r. fst (execute_test_case env c w) = Inr r)
   \<and> (\<forall>e. fst (execute_try env c w) = Inl e \<longrightarrow>
          fst (execute_test_case env c w)
            = Inr (create_result (name c) ''fail'' (RText (error_prefix @ str_exn env e))))
   \<and> (\<forall>e. fst (test_excel_api env c w) \<noteq> Errored e)"
proof (intro conjI allI impI)
  show "\<exists>r. fst (execute_test_case env c w) = Inr r" by (rule execute_test_case_returns)
next
  fix e assume "fst (execute_try env c w) = Inl e"
  then show "fst (execute_test_case env c w)
            = Inr (create_result (name c) ''fail'' (RText (error_prefix @ str_exn env e)))"
    by (cases "execute_try env c w") (simp add: execute_test_case_def)
next
  fix e
  obtain r w1 where "execute_test_case env c w = (Inr r, w1)"
    using execute_test_case_returns[of env c w] by (metis fst_conv surj_pair)
  then show "fst (test_excel_api env c w) \<noteq> Errored e"
    by (simp add: test_excel_api_def Let_def)
qed

theorem execute_test_case_catches_witness:
  "fst (execute_try timeout_env stub_case stub_world) = Inl TypeError
   \<and> fst (execute_test_case timeout_env stub_case stub_world)
       = Inr (create_result ''get_user'' ''fail'' (RText (error_prefix @ ''TypeError'')))"
proof -
  have h: "fst (execute_try timeout_env stub_case stub_world) = Inl TypeError"
    by (simp add: execute_try_def send_request_def send_request_try_def session_request_def
        timeout_env_def stub_env_def stub_case_def result_def result_try_def
        validation_results_def check_status_def response_code_def andthen_def)
  from execute_test_case_catches[of timeout_env stub_case stub_world] h
  show ?thesis by (simp add: stub_case_def timeout_env_def stub_env_def)
qed

text \<open>
  Claim C6 as stated fails for an exception raised during dispatch: when the network call
  times out, the result is \<open>fail\<close>, but its response text is that of the later
  \<open>TypeError\<close> and does not contain the message of the timeout.
\<close>

theorem execute_test_case_timeout_counterexample:
  "transport timeout_env \<lparr>call_method = ''GET'', call_url = ''http://host/api/user/1'',
      call_kw = ''params'', call_payload = PNone, call_headers = PDict []\<rparr> = Inl ReqTimeout
   \<and> fst (execute_test_case timeout_env stub_case stub_world)
       = Inr \<lparr>res_name = ''get_user'', res_result = ''fail'',
              res_response = RText (error_prefix @ ''TypeError'')\<rparr>
   \<and> \<not> sublist (str_exn timeout_env ReqTimeout) (error_prefix @ ''TypeError'')"
proof -
  have "\<not> sublist ''Read timed out.'' (error_prefix @ ''TypeError'')"
    unfolding error_prefix_def by code_simp
  then show ?thesis
    by (simp add: execute_test_case_always_fail create_result_def stub_case_def
        timeout_env_def stub_env_def)
qed

section \<open>CaseSource and ResultWriter\<close>

lemma COLUMNS_lookup:
  "map_of COLUMNS ''name'' = Some 0" "map_of COLUMNS ''run'' = Some 1"
  "map_of COLUMNS ''token'' = Some 2" "map_of COLUMNS ''url'' = Some 3"
  "map_of COLUMNS ''data'' = Some 4" "map_of COLUMNS ''method'' = Some 5"
  "map_of COLUMNS ''type'' = Some 6" "map_of COLUMNS ''header'' = Some 7"
  "map_of COLUMNS ''status_code'' = Some 8" "map_of COLUMNS ''expect_msg'' = Some 9"
  "map_of COLUMNS ''expect_data'' = Some 10" "map_of COLUMNS ''result'' = Some 11"
  "map_of COLUMNS ''response'' = Some 12"
  by (simp_all add: COLUMNS_def)

lemma COLUMNS_bound: "map_of COLUMNS cn = Some col \<Longrightarrow> col < 13"
  by (auto simp: COLUMNS_def split: if_splits)

lemma get_cell_value_Inr:
  "get_cell_value df r cn = Inr x \<Longrightarrow> map_of COLUMNS cn = Some col \<Longrightarrow>
     r < length df \<and> col < length (df ! r) \<and> x = cell_text (df ! r ! col)"
  by (auto simp: get_cell_value_def split: if_splits)

lemma collect_Inr:
  "collect f rs = Inr cs \<Longrightarrow>
     length cs = length rs \<and> (\<forall>i<length rs. f (rs ! i) = Inr (cs ! i))"
proof (induction rs arbitrary: cs)
  case Nil
  then show ?case by simp
next
  case (Cons r rs)
  from Cons.prems obtain c cs' where c: "f r = Inr c" and cs': "collect f rs = Inr cs'"
    and eq: "cs = c # cs'"
    by (auto split: sum.splits)
  from Cons.IH[OF cs'] have ih: "length cs' = length rs" "\<forall>i<length rs. f (rs ! i) = Inr (cs' ! i)"
    by simp_all
  show ?case
  proof (intro conjI allI impI)
    show "length cs = length (r # rs)" using ih eq by simp
  next
    fix i assume "i < length (r # rs)"
    then show "f ((r # rs) ! i) = Inr (cs ! i)"
      using c ih eq by (cases i) simp_all
  qed
qed

lemma load_row_fields:
  assumes "load_row env cfg df r = Inr c"
  shows "row c = r \<and> r < length df \<and> 12 < length (df ! r)
    \<and> name c = cell_text (df ! r ! 0) \<and> run c = cell_text (df ! r ! 1)
    \<and> token c = cell_text (df ! r ! 2)
    \<and> exp_status_code (expected c) = PStr (cell_text (df ! r ! 8))
    \<and> exp_msg (expected c) = PStr (cell_text (df ! r ! 9))
    \<and> exp_data (expected c) = PStr (cell_text (df ! r ! 10))"
  using assms
  by (auto simp: load_row_def andthen_Inr_iff dest!: get_cell_value_Inr[OF _ COLUMNS_lookup(1)]
 get_cell_value_Inr[OF _ COLUMNS_lookup(2)]  get_cell_value_Inr[OF _ COLUMNS_lookup(3)]
 get_cell_value_Inr[OF _ COLUMNS_lookup(9)]  get_cell_value_Inr[OF _ COLUMNS_lookup(10)]
 get_cell_value_Inr[OF _ COLUMNS_lookup(11)]  get_cell_value_Inr[OF _ COLUMNS_lookup(13)])

lemma py_setitem_Inr:
  "py_setitem v k x = Inr y \<Longrightarrow> \<exists>d. y = PDict d \<and> map_of d k = Some x"
  by (cases v) (auto simp: update_conv')

lemma load_row_token:
  assumes "load_row env cfg df r = Inr c" and "token c = ''yes''"
  shows "\<exists>d. headers (request c) = PDict d \<and> map_of d ''Authorization'' = Some (PStr (TOKEN cfg))"
proof -
  from assms(1) obtain hs0 tk hs c_token where
    tk: "get_cell_value df r ''token'' = Inr tk"
    and hs: "(if tk = ''yes'' then py_setitem hs0 ''Authorization'' (PStr (TOKEN cfg))
              else Inr hs0) = Inr hs"
    and ct: "get_cell_value df r ''token'' = Inr c_token"
    and c: "token c = c_token" "headers (request c) = hs"
    by (auto simp: load_row_def andthen_Inr_iff)
  from tk ct c assms(2) have "tk = ''yes''" by simp
  with hs have "py_setitem hs0 ''Authorization'' (PStr (TOKEN cfg)) = Inr hs" by simp
  from py_setitem_Inr[OF this] c show ?thesis by simp
qed

lemma df_prop_frame:
  "df_prop env w = (x, w') \<Longrightarrow> sent w' = sent w \<and> xfile w' = xfile w \<and> locked w' = locked w"
  by (auto simp: df_prop_def split: option.splits sum.splits)

lemma df_prop_cached: "df_cache w = Some d \<Longrightarrow> df_prop env w = (Inr d, w)"
  by (simp add: df_prop_def)

lemma df_prop_Inr: "df_prop env w = (Inr d, w') \<Longrightarrow> df_cache w' = Some d"
  by (auto simp: df_prop_def split: option.splits sum.splits)

lemma df_prop_Inl: "df_prop env w = (Inl e, w') \<Longrightarrow> w' = w"
  by (auto simp: df_prop_def split: option.splits sum.splits)

lemma load_test_cases_again:
  "fst (load_test_cases env cfg (snd (load_test_cases env cfg w))) = fst (load_test_cases env cfg w)"
proof (cases "df_prop env w")
  case (Pair x w')
  show ?thesis
  proof (cases x)
    case (Inl e)
    with Pair df_prop_Inl[of env w e w'] show ?thesis
      by (simp add: load_test_cases_def)
  next
    case (Inr d)
    with Pair df_prop_Inr[of env w d w'] have "df_prop env w' = (Inr d, w')"
      by (simp add: df_prop_cached)
    with Pair Inr show ?thesis by (simp add: load_test_cases_def)
  qed
qed

lemma write_cell_frame_aux:
  assumes "xfile w = Some ws" and "map_of COLUMNS cn = Some col"
  shows "\<exists>ws'. xfile (snd (write_cell env r cn v style w)) = Some ws'
     \<and> (\<forall>p. p \<noteq> (r + 2, col + 1) \<longrightarrow> ws' p = ws p)
     \<and> (fst (write_cell env r cn v style w) = None \<longrightarrow>
          cell_value (ws' (r + 2, col + 1)) = PStr v)"
proof (cases "df_prop env w")
  case (Pair x w1)
  from df_prop_frame[OF Pair] assms(1) have f: "xfile w1 = Some ws" by simp
  show ?thesis
  proof (cases x)
    case (Inl e)
    with Pair f assms(2) show ?thesis by (simp add: write_cell_def)
  next
    case (Inr d)
    with Pair f assms(2) show ?thesis
      by (simp add: write_cell_def Let_def apply_style_def split: option.splits prod.splits)
  qed
qed

lemma write_cell_sent: "sent (snd (write_cell env r cn v style w)) = sent w"
proof (cases "df_prop env w")
  case (Pair x w1)
  from df_prop_frame[OF Pair] have f: "sent w1 = sent w" by simp
  show ?thesis using Pair f
    by (cases x) (auto simp: write_cell_def Let_def split: option.splits)
qed

lemma write_to_excel_sent: "sent (write_to_excel env r res w) = sent w"
proof (cases "write_cell env r ''response'' (str_response env (res_response res)) None w")
  case (Pair x w1)
  have "sent w1 = sent w" using write_cell_sent[of env r "''response''" "str_response env (res_response res)" None w] Pair by simp
  then show ?thesis using Pair
    by (cases x) (simp_all add: write_to_excel_def write_cell_sent)
qed

lemma write_cell_ok:
  assumes "df_cache w = Some d" "r < length d" "col < length (d ! r)"
    "map_of COLUMNS cn = Some col" "xfile w = Some ws" "\<not> locked w"
  shows "write_cell env r cn v style w =
    (None, w\<lparr>df_cache := Some (d[r := (d ! r)[col := Some v]]),
             xfile := Some (ws((r + 2, col + 1) :=
                apply_style style ((ws (r + 2, col + 1))\<lparr>cell_value := PStr v\<rparr>)))\<rparr>)"
  using assms by (simp add: write_cell_def df_prop_cached Let_def)

lemma apply_style_None: "apply_style None c = c"
  by (simp add: apply_style_def)

lemma write_to_excel_ok:
  assumes "df_cache w = Some d" "r < length d" "12 < length (d ! r)"
    "xfile w = Some ws" "\<not> locked w"
  shows "xfile (write_to_excel env r res w) =
     Some (ws((r + 2, 13) := (ws (r + 2, 13))\<lparr>cell_value := PStr (str_response env (res_response res))\<rparr>,
              (r + 2, 12) := apply_style (Some (res_result res))
                               ((ws (r + 2, 12))\<lparr>cell_value := PStr (res_result res)\<rparr>)))"
proof -
  define v where "v = str_response env (res_response res)"
  define d1 where "d1 = d[r := (d ! r)[12 := Some v]]"
  define ws1 where
    "ws1 = ws((r + 2, 12 + 1) := apply_style None ((ws (r + 2, 12 + 1))\<lparr>cell_value := PStr v\<rparr>))"
  define w1 where "w1 = w\<lparr>df_cache := Some d1, xfile := Some ws1\<rparr>"
  have 1: "write_cell env r ''response'' v None w = (None, w1)"
    unfolding w1_def d1_def ws1_def
    using assms by (intro write_cell_ok) (simp_all add: COLUMNS_lookup)
  have w1: "df_cache w1 = Some d1" "r < length d1" "11 < length (d1 ! r)"
    "xfile w1 = Some ws1" "\<not> locked w1"
    using assms by (simp_all add: w1_def d1_def)
  have 2: "write_cell env r ''result'' (res_result res) (Some (res_result res)) w1 =
    (None, w1\<lparr>df_cache := Some (d1[r := (d1 ! r)[11 := Some (res_result res)]]),
       xfile := Some (ws1((r + 2, 11 + 1) :=
          apply_style (Some (res_result res))
            ((ws1 (r + 2, 11 + 1))\<lparr>cell_value := PStr (res_result res)\<rparr>)))\<rparr>)"
    using w1 by (intro write_cell_ok) (simp_all add: COLUMNS_lookup)
  have "xfile (write_to_excel env r res w) =
      Some (ws1((r + 2, 11 + 1) :=
          apply_style (Some (res_result res))
            ((ws1 (r + 2, 11 + 1))\<lparr>cell_value := PStr (res_result res)\<rparr>)))"
    unfolding write_to_excel_def v_def[symmetric] 1 by (simp add: 2)
  then show ?thesis
    by (simp add: ws1_def v_def apply_style_None)
qed


lemma apply_style_skip:
  "apply_style (Some ''skip'') c = c\<lparr>cell_font := \<lparr>bold = True, color = Some ''800080''\<rparr>\<rparr>"
  by (simp add: apply_style_def STYLES_def)

text \<open>
  Claim C5: a case whose run flag, lowered, is not \<open>yes\<close> is skipped; the log of HTTP
  calls is what it was, so nothing was dispatched; and when the row is in the table and
  the workbook can be opened and saved, the result cell of the row (sheet row
  \<open>row + 2\<close>, sheet column 12) holds \<open>skip\<close> in the bold purple font of the \<open>skip\<close>
  style.
\<close>

theorem skipped_case:
  assumes "lower (run c) \<noteq> ''yes''"
  shows "fst (test_excel_api env c w) = Skipped
    \<and> sent (snd (test_excel_api env c w)) = sent w
    \<and> (df_cache w = Some d \<and> row c < length d \<and> 12 < length (d ! row c)
         \<and> xfile w = Some ws \<and> \<not> locked w \<longrightarrow>
       (\<exists>ws'. xfile (snd (test_excel_api env c w)) = Some ws'
         \<and> cell_value (ws' (row c + 2, 12)) = PStr ''skip''
         \<and> cell_font (ws' (row c + 2, 12)) = \<lparr>bold = True, color = Some ''800080''\<rparr>))"
  using assms
  by (auto simp: test_excel_api_def write_to_excel_sent write_to_excel_ok create_result_def
      apply_style_skip)

text \<open>The case \<open>get_user\<close> with run flag \<open>No\<close>, on the example table.\<close>

theorem skipped_case_witness:
  "fst (test_excel_api stub_env (stub_case\<lparr>run := ''No''\<rparr>) stub_world) = Skipped
    \<and> sent (snd (test_excel_api stub_env (stub_case\<lparr>run := ''No''\<rparr>) stub_world)) = []
    \<and> (\<exists>ws'. xfile (snd (test_excel_api stub_env (stub_case\<lparr>run := ''No''\<rparr>) stub_world)) = Some ws'
         \<and> cell_value (ws' (3, 12)) = PStr ''skip''
         \<and> cell_font (ws' (3, 12)) = \<lparr>bold = True, color = Some ''800080''\<rparr>)"
proof -
  have h: "lower (run (stub_case\<lparr>run := ''No''\<rparr>)) \<noteq> ''yes''"
    by (simp add: lower_def lower_char_def)
  have g: "df_cache stub_world = Some stub_df \<and> row (stub_case\<lparr>run := ''No''\<rparr>) < length stub_df
     \<and> 12 < length (stub_df ! row (stub_case\<lparr>run := ''No''\<rparr>))
     \<and> xfile stub_world = Some (\<lambda>p. blank_cell) \<and> \<not> locked stub_world"
    by (simp add: stub_world_def stub_df_def stub_case_def)
  from skipped_case[OF h, of stub_env stub_world stub_df "\<lambda>p. blank_cell"] g
  show ?thesis by (auto simp: stub_case_def stub_world_def numeral_3_eq_3)
qed

text \<open>
  Claim C10: for a skipped case the writer receives the result built by
  \<open>create_result\<close> with its default response \<open>None\<close>; its text is \<open>None\<close>, and when the
  write succeeds the response cell of the row (sheet column 13) holds the string \<open>None\<close>.
\<close>

theorem skipped_case_response_text:
  assumes "lower (run c) \<noteq> ''yes''"
  shows "snd (test_excel_api env c w)
           = write_to_excel env (row c) (create_result (name c) ''skip'' RNone) w
    \<and> res_response (create_result (name c) ''skip'' RNone) = RNone
    \<and> str_response env (res_response (create_result (name c) ''skip'' RNone)) = ''None''
    \<and> (df_cache w = Some d \<and> row c < length d \<and> 12 < length (d ! row c)
         \<and> xfile w = Some ws \<and> \<not> locked w \<longrightarrow>
       (\<exists>ws'. xfile (snd (test_excel_api env c w)) = Some ws'
         \<and> cell_value (ws' (row c + 2, 13)) = PStr ''None''))"
  using assms
  by (auto simp: test_excel_api_def write_to_excel_ok create_result_def str_response_def)

text \<open>The same skipped case: the response cell of sheet row 3.\<close>

theorem skipped_case_response_text_witness:
  "snd (test_excel_api stub_env (stub_case\<lparr>run := ''No''\<rparr>) stub_world)
           = write_to_excel stub_env 1 (create_result ''get_user'' ''skip'' RNone) stub_world
    \<and> (\<exists>ws'. xfile (snd (test_excel_api stub_env (stub_case\<lparr>run := ''No''\<rparr>) stub_world)) = Some ws'
         \<and> cell_value (ws' (3, 13)) = PStr ''None'')"
proof -
  have h: "lower (run (stub_case\<lparr>run := ''No''\<rparr>)) \<noteq> ''yes''"
    by (simp add: lower_def lower_char_def)
  have g: "df_cache stub_world = Some stub_df \<and> row (stub_case\<lparr>run := ''No''\<rparr>) < length stub_df
     \<and> 12 < length (stub_df ! row (stub_case\<lparr>run := ''No''\<rparr>))
     \<and> xfile stub_world = Some (\<lambda>p. blank_cell) \<and> \<not> locked stub_world"
    by (simp add: stub_world_def stub_df_def stub_case_def)
  from skipped_case_response_text[OF h, of stub_env stub_world stub_df "\<lambda>p. blank_cell"] g
  show ?thesis by (auto simp: stub_case_def stub_world_def numeral_3_eq_3)
qed

text \<open>
  Claim C9: a write to row \<open>r\<close> and column \<open>cn\<close> leaves every cell of the sheet other than
  \<open>(r + 2, col + 1)\<close> as it was, value and font, whether the write succeeds or raises; a
  write that succeeds puts the value in that cell. The row offset is the constant 2, the
  column offset the constant 1.
\<close>

theorem write_cell_frame:
  assumes "xfile w = Some ws" and "map_of COLUMNS cn = Some col"
  shows "\<exists>ws'. xfile (snd (write_cell env r cn v style w)) = Some ws'
     \<and> (\<forall>p. p \<noteq> (r + 2, col + 1) \<longrightarrow> ws' p = ws p)
     \<and> (fst (write_cell env r cn v style w) = None \<longrightarrow>
          cell_value (ws' (r + 2, col + 1)) = PStr v)"
  using assms by (rule write_cell_frame_aux)

text \<open>Writing \<open>pass\<close> to the result column of row 1 of the example workbook.\<close>

theorem write_cell_frame_witness:
  "\<exists>ws'. xfile (snd (write_cell stub_env 1 ''result'' ''pass'' (Some ''pass'') stub_world)) = Some ws'
     \<and> (\<forall>p. p \<noteq> (3, 12) \<longrightarrow> ws' p = blank_cell)
     \<and> cell_value (ws' (3, 12)) = PStr ''pass''"
proof -
  have a: "xfile stub_world = Some (\<lambda>p. blank_cell)" by (simp add: stub_world_def)
  have b: "map_of COLUMNS ''result'' = Some 11" by (simp add: COLUMNS_def)
  have c: "fst (write_cell stub_env 1 ''result'' ''pass'' (Some ''pass'') stub_world) = None"
    by (simp add: write_cell_def COLUMNS_def df_prop_def stub_world_def stub_df_def Let_def)
  from write_cell_frame[OF a b, of stub_env 1 "''pass''" "Some ''pass''"] c
  show ?thesis by (auto simp: numeral_3_eq_3)
qed


lemma get_cell_value_ok:
  "r < length df \<Longrightarrow> 12 < length (df ! r) \<Longrightarrow> map_of COLUMNS cn = Some col \<Longrightarrow>
     get_cell_value df r cn = Inr (cell_text (df ! r ! col))"
  using COLUMNS_bound[of cn col] by (simp add: get_cell_value_def)

lemma load_row_total:
  assumes "r < length df" and "well_formed_row env (df ! r)"
  shows "\<exists>c. load_row env cfg df r = Inr c"
proof -
  from assms(2) have len: "12 < length (df ! r)" by (simp add: well_formed_row_def)
  note g = get_cell_value_ok[OF assms(1) len]
  have h: "cell_text (df ! r ! 7) = []
     \<or> (\<exists>v. eval_py env (cell_text (df ! r ! 7)) = Inr v
            \<and> (cell_text (df ! r ! 2) \<noteq> ''yes'' \<or> (\<exists>d. v = PDict d)))"
    using assms(2) by (auto simp: well_formed_row_def split: sum.splits pyval.splits)
  have dt: "cell_text (df ! r ! 4) = [] \<or> (\<exists>v. eval_py env (cell_text (df ! r ! 4)) = Inr v)"
    using assms(2) by (auto simp: well_formed_row_def split: sum.splits)
  from h dt show ?thesis
    by (auto simp: load_row_def andthen_def g[OF COLUMNS_lookup(1)] g[OF COLUMNS_lookup(2)]
        g[OF COLUMNS_lookup(3)] g[OF COLUMNS_lookup(4)] g[OF COLUMNS_lookup(5)]
        g[OF COLUMNS_lookup(6)] g[OF COLUMNS_lookup(7)] g[OF COLUMNS_lookup(8)]
        g[OF COLUMNS_lookup(9)] g[OF COLUMNS_lookup(10)] g[OF COLUMNS_lookup(11)]
        g[OF COLUMNS_lookup(12)] g[OF COLUMNS_lookup(13)])
qed

lemma collect_total:
  "(\<And>r. r \<in> set rs \<Longrightarrow> \<exists>c. f r = Inr c) \<Longrightarrow> \<exists>cs. collect f rs = Inr cs"
proof (induction rs)
  case Nil
  then show ?case by simp
next
  case (Cons r rs)
  from Cons.prems[of r] obtain c where c: "f r = Inr c" by auto
  from Cons.IH Cons.prems obtain cs where "collect f rs = Inr cs" by auto
  with c show ?case by simp
qed

text \<open>
  The loop starts at row 1 of the DataFrame. When the rows after row 0 are well formed,
  one load returns exactly one record for each of them, in the order of the rows: record
  \<open>i\<close> is the one built from row \<open>i + 1\<close>, carries that row index and the name of that
  row. Row 0 gives no record. Loading again, in the state the first load left, returns
  the same list.
\<close>

lemma load_test_cases_rows:
  assumes "df_prop env w = (Inr d, w1)" and "\<forall>r\<in>set (tl d). well_formed_row env r"
  shows "\<exists>cs. fst (load_test_cases env cfg w) = Inr cs
     \<and> length cs = length (tl d)
     \<and> (\<forall>i<length cs. row (cs ! i) = Suc i
            \<and> name (cs ! i) = cell_text (tl d ! i ! 0)
            \<and> load_row env cfg d (Suc i) = Inr (cs ! i))
     \<and> fst (load_test_cases env cfg (snd (load_test_cases env cfg w))) = Inr cs"
proof -
  have ok: "\<exists>c. load_row env cfg d r = Inr c" if "r \<in> set [1..<length d]" for r
  proof -
    from that have r: "1 \<le> r" "r < length d" by simp_all
    then have "d ! r = tl d ! (r - 1)" by (simp add: nth_tl)
    moreover from r have "r - 1 < length (tl d)" by simp
    ultimately have "d ! r \<in> set (tl d)" by (metis nth_mem)
    with assms(2) have "well_formed_row env (d ! r)" by blast
    with r(2) show ?thesis by (rule load_row_total)
  qed
  from collect_total[of "[1..<length d]" "load_row env cfg d", OF ok]
  obtain cs where cs: "collect (load_row env cfg d) [1..<length d] = Inr cs" by blast
  from assms(1) cs have l: "fst (load_test_cases env cfg w) = Inr cs"
    by (simp add: load_test_cases_def)
  from collect_Inr[OF cs] have len: "length cs = length d - 1"
    and el: "\<forall>i<length d - 1. load_row env cfg d ([1..<length d] ! i) = Inr (cs ! i)"
    by simp_all
  have "row (cs ! i) = Suc i \<and> name (cs ! i) = cell_text (tl d ! i ! 0)
          \<and> load_row env cfg d (Suc i) = Inr (cs ! i)" if "i < length cs" for i
  proof -
    from that len have i: "i < length d - 1" by simp
    with el have lr: "load_row env cfg d (Suc i) = Inr (cs ! i)" by simp
    from i have "tl d ! i = d ! Suc i" by (simp add: nth_tl)
    with load_row_fields[OF lr] lr show ?thesis by simp
  qed
  with l len load_test_cases_again[of env cfg w] show ?thesis by auto
qed

text \<open>The cached example table: three rows, of which the last two are loaded.\<close>

lemma load_test_cases_rows_example:
  "\<exists>cs. fst (load_test_cases stub_env stub_cfg stub_world) = Inr cs
     \<and> length cs = 2
     \<and> (\<forall>i<length cs. row (cs ! i) = Suc i
            \<and> name (cs ! i) = cell_text (tl stub_df ! i ! 0)
            \<and> load_row stub_env stub_cfg stub_df (Suc i) = Inr (cs ! i))
     \<and> fst (load_test_cases stub_env stub_cfg
               (snd (load_test_cases stub_env stub_cfg stub_world))) = Inr cs"
proof -
  have a: "df_prop stub_env stub_world = (Inr stub_df, stub_world)"
    by (simp add: df_prop_def stub_world_def)
  have b: "\<forall>r\<in>set (tl stub_df). well_formed_row stub_env r"
    by code_simp
  have c: "length (tl stub_df) = 2" by (simp add: stub_df_def)
  from load_test_cases_rows[OF a b, of stub_cfg] c show ?thesis by simp
qed

text \<open>
  Read from the file, the DataFrame holds the sheet rows after the first: its row \<open>r\<close>,
  column \<open>c\<close> is the cell of sheet row \<open>r + 2\<close>, sheet column \<open>c + 1\<close>, the very cell
  \<open>_write_cell\<close> writes for row \<open>r\<close>. Row 0 of the DataFrame is thus the first data row of
  the sheet, not its header.
\<close>

lemma sheet_rows_length: "length (sheet_rows nrows ncols ws) = nrows"
  by (simp add: sheet_rows_def del: upt_Suc)

lemma sheet_rows_nth:
  "r < nrows \<Longrightarrow>
     sheet_rows nrows ncols ws ! r = map (\<lambda>c. cell_value (ws (Suc r, c))) [1..<Suc ncols]"
  by (simp add: sheet_rows_def del: upt_Suc)

lemma pd_read_excel_rows:
  "pd_read_excel conv nrows ncols ws = Inr d \<Longrightarrow> length d = nrows - 1"
  by (auto simp: pd_read_excel_def sheet_rows_length)

lemma pd_read_excel_cell:
  assumes "pd_read_excel conv nrows ncols ws = Inr d" and "r < length d" and "c < ncols"
  shows "d ! r ! c = conv (cell_value (ws (r + 2, c + 1)))"
proof -
  from assms(1) have d: "d = map (map conv) (tl (sheet_rows nrows ncols ws))"
    by (auto simp: pd_read_excel_def)
  with assms(2) have r: "r < nrows - 1" by (simp add: sheet_rows_length)
  then have "tl (sheet_rows nrows ncols ws) ! r = sheet_rows nrows ncols ws ! Suc r"
    by (simp add: nth_tl sheet_rows_length)
  also from r have "\<dots> = map (\<lambda>c. cell_value (ws (r + 2, c))) [1..<Suc ncols]"
    by (simp add: sheet_rows_nth)
  finally have "d ! r = map conv (map (\<lambda>c. cell_value (ws (r + 2, c))) [1..<Suc ncols])"
    using d r by (simp add: sheet_rows_length)
  with assms(3) show ?thesis by (simp del: upt_Suc)
qed

text \<open>
  So a sheet with its header row and \<open>n\<close> data rows, all well formed, loads \<open>n - 1\<close>
  records: the DataFrame has \<open>n\<close> rows and the loop passes over the first of them.
\<close>

lemma load_test_cases_from_sheet:
  assumes "df_cache w = None" and "xfile w = Some ws"
    and "read_excel env ws = pd_read_excel conv (Suc n) m ws"
    and "pd_read_excel conv (Suc n) m ws = Inr d"
    and "\<forall>r\<in>set (tl d). well_formed_row env r"
  shows "length d = n
     \<and> (\<exists>cs. fst (load_test_cases env cfg w) = Inr cs \<and> length cs = n - 1)"
proof -
  from assms(1-4) have p: "df_prop env w = (Inr d, w\<lparr>df_cache := Some d\<rparr>)"
    by (simp add: df_prop_def)
  from pd_read_excel_rows[OF assms(4)] have n: "length d = n" by simp
  from load_test_cases_rows[OF p assms(5), of cfg] n show ?thesis by auto
qed

text \<open>
  Claim C3 does not hold of \<open>ExcelPack.load_test_cases\<close>. The example workbook has the
  header row and N = 2 data rows, \<open>get_user\<close> and \<open>del_user\<close>. Read from the file, the
  DataFrame holds these two rows, and the load returns one record, not two: the record of
  \<open>del_user\<close>, with row index 1. The first data row, \<open>get_user\<close>, is row 0 of the
  DataFrame, and the loop \<open>range(1, len(self.df))\<close> starts after it. The reload returns
  the same single record.
\<close>

theorem load_test_cases_skips_first_data_row:
  "fst (df_prop sheet_env sheet_world) = Inr (tl stub_df)
   \<and> map (\<lambda>r. cell_text (r ! 0)) (tl stub_df) = [''get_user'', ''del_user'']
   \<and> fst (load_test_cases sheet_env stub_cfg sheet_world)
       = Inr [\<lparr>name = ''del_user'', run = ''no'', token = [], data_type = ''params'',
               request = \<lparr>url = ''http://host/api/user/2'', http_method = ''DELETE'',
                          headers = PDict [], data = PNone\<rparr>,
               expected = \<lparr>exp_status_code = PStr ''200'', exp_msg = PStr ''ok'',
                           exp_data = PStr ''id''\<rparr>,
               prev_result = [], prev_response = [], row = 1\<rparr>]
   \<and> fst (load_test_cases sheet_env stub_cfg
            (snd (load_test_cases sheet_env stub_cfg sheet_world)))
       = fst (load_test_cases sheet_env stub_cfg sheet_world)"
proof -
  have "fst (df_prop sheet_env sheet_world) = Inr (tl stub_df)"
    by code_simp
  moreover have "map (\<lambda>r. cell_text (r ! 0)) (tl stub_df) = [''get_user'', ''del_user'']"
    by code_simp
  moreover have "fst (load_test_cases sheet_env stub_cfg sheet_world)
       = Inr [\<lparr>name = ''del_user'', run = ''no'', token = [], data_type = ''params'',
               request = \<lparr>url = ''http://host/api/user/2'', http_method = ''DELETE'',
                          headers = PDict [], data = PNone\<rparr>,
               expected = \<lparr>exp_status_code = PStr ''200'', exp_msg = PStr ''ok'',
                           exp_data = PStr ''id''\<rparr>,
               prev_result = [], prev_response = [], row = 1\<rparr>]"
    by code_simp
  moreover have "fst (load_test_cases sheet_env stub_cfg
            (snd (load_test_cases sheet_env stub_cfg sheet_world)))
       = fst (load_test_cases sheet_env stub_cfg sheet_world)"
    by (rule load_test_cases_again)
  ultimately show ?thesis by simp
qed

lemma load_test_cases_sent: "sent (snd (load_test_cases env cfg w)) = sent w"
proof (cases "df_prop env w")
  case (Pair x w')
  from df_prop_frame[OF Pair] show ?thesis using Pair
    by (cases x) (simp_all add: load_test_cases_def)
qed

text \<open>
  Claim C8: every record of a load whose token flag is \<open>yes\<close> has a dictionary of headers
  in which \<open>Authorization\<close> is bound to the configured token. The load itself makes no
  HTTP call: the binding is there before any dispatch.
\<close>

theorem load_test_cases_token:
  assumes "fst (load_test_cases env cfg w) = Inr cs" and "c \<in> set cs" and "token c = ''yes''"
  shows "(\<exists>d. headers (request c) = PDict d
              \<and> map_of d ''Authorization'' = Some (PStr (TOKEN cfg)))
         \<and> sent (snd (load_test_cases env cfg w)) = sent w"
proof -
  obtain x w' where p: "df_prop env w = (x, w')" by (cases "df_prop env w")
  with assms(1) obtain d where cs: "collect (load_row env cfg d) [1..<length d] = Inr cs"
    by (cases x) (auto simp: load_test_cases_def)
  from assms(2) obtain i where i: "i < length cs" "cs ! i = c"
    by (auto simp: in_set_conv_nth)
  with collect_Inr[OF cs] have "load_row env cfg d ([1..<length d] ! i) = Inr c"
    by auto
  from load_row_token[OF this assms(3)] load_test_cases_sent[of env cfg w]
  show ?thesis by simp
qed

text \<open>The first record of the example table, whose token flag is \<open>yes\<close>.\<close>

theorem load_test_cases_token_witness:
  "\<exists>d. headers (request (\<lparr>name = ''get_user'', run = ''yes'', token = ''yes'',
          data_type = ''params'',
          request = \<lparr>url = ''http://host/api/user/1'', http_method = ''GET'',
               headers = PDict [(''Authorization'', PStr ''Bearer t'')], data = PNone\<rparr>,
          expected = \<lparr>exp_status_code = PStr ''200'', exp_msg = PStr ''ok'',
               exp_data = PStr []\<rparr>,
          prev_result = [], prev_response = [], row = 1\<rparr>)) = PDict d
     \<and> map_of d ''Authorization'' = Some (PStr (TOKEN stub_cfg))"
proof -
  let ?c1 = "\<lparr>name = ''get_user'', run = ''yes'', token = ''yes'',
          data_type = ''params'',
          request = \<lparr>url = ''http://host/api/user/1'', http_method = ''GET'',
               headers = PDict [(''Authorization'', PStr ''Bearer t'')], data = PNone\<rparr>,
          expected = \<lparr>exp_status_code = PStr ''200'', exp_msg = PStr ''ok'',
               exp_data = PStr []\<rparr>,
          prev_result = [], prev_response = [], row = 1\<rparr>"
  let ?c2 = "\<lparr>name = ''del_user'', run = ''no'', token = [],
          data_type = ''params'',
          request = \<lparr>url = ''http://host/api/user/2'', http_method = ''DELETE'',
               headers = PDict [], data = PNone\<rparr>,
          expected = \<lparr>exp_status_code = PStr ''200'', exp_msg = PStr ''ok'',
               exp_data = PStr ''id''\<rparr>,
          prev_result = [], prev_response = [], row = 2\<rparr>"
  have a: "fst (load_test_cases stub_env stub_cfg stub_world) = Inr [?c1, ?c2]"
    by code_simp
  have b: "?c1 \<in> set [?c1, ?c2]" by simp
  have c: "token ?c1 = ''yes''" by simp
  from load_test_cases_token[OF a b c] show ?thesis by simp
qed

section \<open>The YAML source\<close>

text \<open>
  \<open>YamlPack.load_test_cases\<close> keeps, in document order, the value under \<open>Test\<close> of every
  entry of the \<open>Case\<close> list: when every entry is a mapping with exactly that key, there
  is one case for each entry.
\<close>

lemma yaml_tests_one_per_entry:
  "yaml_tests (map (\<lambda>v. PDict [(''Test'', v)]) vs) = Inr vs"
  by (induction vs) (simp_all add: andthen_def)

lemma yaml_load_test_cases_order:
  "yaml_load_test_cases (PDict [(''Case'', PList (map (\<lambda>v. PDict [(''Test'', v)]) vs))]) = Inr vs"
  by (simp add: yaml_load_test_cases_def andthen_def yaml_tests_one_per_entry)

end
